theory Spec2Isabelle
  imports Complex_Main "HOL-Library.Sublist"
begin

section \<open>Data model (internal/llm/provider.go)\<close>

text \<open>
  Go's \<open>error\<close> values are modelled as data. An error built by \<open>fmt.Errorf(format, args...)\<close>
  is the constructor \<open>Errorf\<close> applied to the format string and the arguments as written in
  the source; an error that comes out of a library (encoding/json, net/http, the body reader)
  is \<open>Lib\<close> with its text.
\<close>

datatype err = Lib string | Errorf string "arg list"
and arg = AStr string | AInt int | AErr err

text \<open>\<open>StreamChunk\<close>: one piece of a streaming response. \<open>Error = None\<close> is Go's nil error.\<close>

record StreamChunk =
  Content :: string
  Done :: bool
  Error :: "err option"

text \<open>
  \<open>ChatMessage\<close>: one message of a conversation. The Go fields are \<open>Role\<close> and
  \<open>Content\<close>; the second one is called \<open>Text\<close> here because \<open>Content\<close> is the chunk's field.
\<close>

record ChatMessage =
  Role :: string
  Text :: string

section \<open>Library functions the source calls\<close>

text \<open>\<open>strings.HasPrefix(s, prefix)\<close> and \<open>strings.TrimPrefix(s, prefix)\<close>.\<close>

definition HasPrefix :: "string \<Rightarrow> string \<Rightarrow> bool" where
  "HasPrefix s p = (take (length p) s = p)"

definition TrimPrefix :: "string \<Rightarrow> string \<Rightarrow> string" where
  "TrimPrefix s p = (if HasPrefix s p then drop (length p) s else s)"

text \<open>
  A \<open>select\<close> with the two cases \<open>ch <- v\<close> and \<open><-ctx.Done()\<close> fires when one of them can
  proceed. \<open>ctx_done\<close> says whether the context is cancelled at that moment. When it is not,
  only the send can fire (the goroutine waits for room in the channel). When it is, the
  cancellation case can proceed; the send can proceed as well when the channel has room, and
  then the runtime chooses one of the two: \<open>send_picked\<close> says that the send can proceed and
  is the one chosen. A select that never fires (no reader and no cancellation) parks the
  goroutine for good: such a run has no way out and is not among the runs described here.
\<close>

datatype choice = SendCase | DoneCase

record sel =
  ctx_done :: bool
  send_picked :: bool

definition select_send :: "sel \<Rightarrow> choice" where
  "select_send s = (if ctx_done s then (if send_picked s then SendCase else DoneCase) else SendCase)"

text \<open>
  What one run of \<open>ParseSSE\<close> observes of its context: \<open>check i\<close> is whether
  \<open>ctx.Done()\<close> is closed at the non-blocking check made before the \<open>i\<close>-th line is
  processed, \<open>at_send i\<close> is the outcome of the select that publishes the chunk of line
  \<open>i\<close>, and \<open>at_err\<close> that of the select that publishes the scanner's error. The
  goroutine of the event-typed provider watches the same context: \<open>at_forward j\<close> is the
  outcome of its select for the \<open>j\<close>-th chunk it receives.
\<close>

record ctx =
  check :: "nat \<Rightarrow> bool"
  at_send :: "nat \<Rightarrow> sel"
  at_err :: sel
  at_forward :: "nat \<Rightarrow> sel"

text \<open>
  The response body: \<open>lines\<close> are the tokens \<open>bufio.Scanner\<close> yields before \<open>Scan\<close>
  returns false, \<open>read_err\<close> is what \<open>scanner.Err()\<close> returns then (\<open>None\<close> at a plain
  end of input), and \<open>all_bytes\<close> is what \<open>io.ReadAll\<close> returns on the path that reads the
  body whole.
\<close>

record body =
  lines :: "string list"
  read_err :: "err option"
  all_bytes :: string

section \<open>The frame extractor (internal/llm/stream.go)\<close>

text \<open>
  What the goroutine of \<open>ParseSSE\<close> does, in order: a call of the decoding callback, a
  send on the channel that went through, the deferred \<open>body.Close()\<close> and the deferred
  \<open>close(ch)\<close>.
\<close>

datatype event = Call string | Send StreamChunk | BodyClose | ChanClose

text \<open>
  The \<open>for scanner.Scan()\<close> loop. The result is the events of the loop and whether the loop
  was left by \<open>return\<close> (\<open>True\<close>) or by the end of the lines (\<open>False\<close>).
\<close>

fun scan_loop :: "ctx \<Rightarrow> (string \<Rightarrow> StreamChunk \<times> bool) \<Rightarrow> nat \<Rightarrow> string list \<Rightarrow> event list \<times> bool" where
  "scan_loop c onData i [] = ([], False)"
| "scan_loop c onData i (line # rest) =
     (if check c i then ([], True)
      else if line = [] then scan_loop c onData (Suc i) rest
      else if HasPrefix line '':'' then scan_loop c onData (Suc i) rest
      else if HasPrefix line ''data: '' then
        (case select_send (at_send c i) of
           DoneCase \<Rightarrow> ([Call (TrimPrefix line ''data: '')], True)
         | SendCase \<Rightarrow>
             (if snd (onData (TrimPrefix line ''data: ''))
              then ([Call (TrimPrefix line ''data: ''),
                     Send (fst (onData (TrimPrefix line ''data: '')))], True)
              else apfst (\<lambda>es. Call (TrimPrefix line ''data: '')
                               # Send (fst (onData (TrimPrefix line ''data: ''))) # es)
                     (scan_loop c onData (Suc i) rest)))
      else scan_loop c onData (Suc i) rest)"

text \<open>The check of \<open>scanner.Err()\<close> after the loop, reached only when the loop ran to its end.\<close>

definition err_tail :: "ctx \<Rightarrow> err option \<Rightarrow> event list" where
  "err_tail c e =
     (case e of
        None \<Rightarrow> []
      | Some x \<Rightarrow>
          (case select_send (at_err c) of
             SendCase \<Rightarrow> [Send \<lparr>Content = [], Done = False, Error = Some x\<rparr>]
           | DoneCase \<Rightarrow> []))"

text \<open>
  The goroutine as a whole. The two deferred calls run last in first out on every way out:
  \<open>body.Close()\<close>, then \<open>close(ch)\<close>.
\<close>

definition ParseSSE :: "ctx \<Rightarrow> body \<Rightarrow> (string \<Rightarrow> StreamChunk \<times> bool) \<Rightarrow> event list" where
  "ParseSSE c b onData =
     (case scan_loop c onData 0 (lines b) of
        (es, returned) \<Rightarrow>
          es @ (if returned then [] else err_tail c (read_err b)) @ [BodyClose, ChanClose])"

section \<open>The event-typed decoder (internal/llm/claude.go)\<close>

text \<open>
  The values \<open>json.Unmarshal\<close> stores in a \<open>map[string]interface{}\<close>. An object is the
  list of its members, looked up with \<open>map_of\<close>. Numbers are never inspected.
\<close>

datatype json = JNull | JBool bool | JNum rat | JStr string | JArr "json list"
  | JObj "(string \<times> json) list"

text \<open>
  The type assertions \<open>m[k].(string)\<close> and \<open>m[k].(map[string]interface{})\<close> in their
  two-result form: \<open>None\<close> is \<open>ok = false\<close>, which a missing key gives as well.
\<close>

fun as_string :: "json option \<Rightarrow> string option" where
  "as_string (Some (JStr s)) = Some s"
| "as_string _ = None"

fun as_object :: "json option \<Rightarrow> (string \<times> json) list option" where
  "as_object (Some (JObj m)) = Some m"
| "as_object _ = None"

text \<open>
  The callback the event-typed provider gives to \<open>ParseSSE\<close>. \<open>unmarshal\<close> is
  \<open>json.Unmarshal\<close> into a \<open>map[string]interface{}\<close>: the members, or the library's error.
\<close>

definition claude_onData ::
  "(string \<Rightarrow> err + (string \<times> json) list) \<Rightarrow> string \<Rightarrow> StreamChunk \<times> bool" where
  "claude_onData unmarshal data =
     (case unmarshal data of
        Inl e \<Rightarrow>
          (\<lparr>Content = [], Done = False,
            Error = Some (Errorf ''failed to parse SSE data: %w'' [AErr e])\<rparr>, True)
      | Inr event \<Rightarrow>
          (case as_string (map_of event ''type'') of
             None \<Rightarrow> (\<lparr>Content = [], Done = False, Error = None\<rparr>, False)
           | Some eventType \<Rightarrow>
               if eventType = ''content_block_delta'' then
                 (case as_object (map_of event ''delta'') of
                    None \<Rightarrow> (\<lparr>Content = [], Done = False, Error = None\<rparr>, False)
                  | Some delta \<Rightarrow>
                      (case as_string (map_of delta ''text'') of
                         None \<Rightarrow> (\<lparr>Content = [], Done = False, Error = None\<rparr>, False)
                       | Some text \<Rightarrow> (\<lparr>Content = text, Done = False, Error = None\<rparr>, False)))
               else if eventType = ''message_stop'' then
                 (\<lparr>Content = [], Done = True, Error = None\<rparr>, True)
               else if eventType = ''error'' then
                 (let errMsg =
                        (case as_object (map_of event ''error'') of
                           None \<Rightarrow> ''unknown error''
                         | Some errData \<Rightarrow>
                             (case as_string (map_of errData ''message'') of
                                None \<Rightarrow> ''unknown error''
                              | Some msg \<Rightarrow> msg))
                  in (\<lparr>Content = [], Done = False,
                       Error = Some (Errorf ''API error: %s'' [AStr errMsg])\<rparr>, True))
               else (\<lparr>Content = [], Done = False, Error = None\<rparr>, False)))"

section \<open>The delta-typed decoder (openaiProvider.parseChunk)\<close>

text \<open>
  One element of the \<open>Choices\<close> field of the struct \<open>parseChunk\<close> decodes into:
  \<open>Delta.Content\<close>, a plain string that stays empty when the payload has none, and
  \<open>FinishReason\<close>, a pointer to a string (\<open>None\<close> is nil).
\<close>

record choice_struct =
  Delta_Content :: string
  FinishReason :: "string option"

text \<open>\<open>unmarshal\<close> is \<open>json.Unmarshal\<close> into that struct: its \<open>Choices\<close>, or the error.\<close>

definition parseChunk ::
  "(string \<Rightarrow> err + choice_struct list) \<Rightarrow> string \<Rightarrow> StreamChunk \<times> bool" where
  "parseChunk unmarshal data =
     (if data = ''[DONE]'' then (\<lparr>Content = [], Done = True, Error = None\<rparr>, True)
      else
        (case unmarshal data of
           Inl e \<Rightarrow>
             (\<lparr>Content = [], Done = False,
               Error = Some (Errorf ''failed to parse chunk: %w'' [AErr e])\<rparr>, True)
         | Inr Choices \<Rightarrow>
             (case Choices of
                first # _ \<Rightarrow>
                  (if FinishReason first \<noteq> None \<and> FinishReason first \<noteq> Some []
                   then (\<lparr>Content = Delta_Content first, Done = False, Error = None\<rparr>, False)
                   else (\<lparr>Content = Delta_Content first, Done = False, Error = None\<rparr>, False))
              | [] \<Rightarrow> (\<lparr>Content = [], Done = False, Error = None\<rparr>, False))))"

section \<open>The goroutine of the event-typed provider (claude.go, lines 70 to 130)\<close>

text \<open>The chunks that went through on a channel, in order.\<close>

fun sent :: "event list \<Rightarrow> StreamChunk list" where
  "sent [] = []"
| "sent (Send ch # es) = ch # sent es"
| "sent (e # es) = sent es"

text \<open>
  The loop \<open>for chunk := range sseChannel\<close> over the chunks received from \<open>ParseSSE\<close>:
  a chunk with content, the done marker or an error is sent on, unless the select takes the
  cancellation case, which returns.
\<close>

fun forward :: "ctx \<Rightarrow> nat \<Rightarrow> StreamChunk list \<Rightarrow> event list" where
  "forward c j [] = []"
| "forward c j (chunk # rest) =
     (if Content chunk \<noteq> [] \<or> Done chunk \<or> Error chunk \<noteq> None then
        (case select_send (at_forward c j) of
           SendCase \<Rightarrow> Send chunk # forward c (Suc j) rest
         | DoneCase \<Rightarrow> [])
      else forward c (Suc j) rest)"

text \<open>
  The two goroutines of one stream of the event-typed provider: \<open>sse\<close> is what the one
  inside \<open>ParseSSE\<close> does, \<open>out\<close> what the one started by \<open>Stream\<close> does on the channel
  the caller holds. The second one has two deferred calls as well: \<open>resp.Body.Close()\<close>,
  then \<open>close(ch)\<close>.
\<close>

record pipeline =
  sse :: "event list"
  out :: "event list"

definition claude_goroutine ::
  "ctx \<Rightarrow> (string \<Rightarrow> err + (string \<times> json) list) \<Rightarrow> body \<Rightarrow> pipeline" where
  "claude_goroutine c unmarshal b =
     (let sseChannel = ParseSSE c b (claude_onData unmarshal)
      in \<lparr>sse = sseChannel, out = forward c 0 (sent sseChannel) @ [BodyClose, ChanClose]\<rparr>)"

text \<open>How often the body's \<open>Close\<close> runs for one stream, over both goroutines.\<close>

definition body_closes :: "pipeline \<Rightarrow> nat" where
  "body_closes p = count_list (sse p) BodyClose + count_list (out p) BodyClose"

section \<open>The provider facade (claudeProvider.Stream, openaiProvider.Stream)\<close>

text \<open>
  \<open>claudeProvider\<close> and \<open>openaiProvider\<close> are two structs with the same fields; the
  \<open>client\<close> field is the \<open>client_do\<close> of the record \<open>world\<close> below.
\<close>

record provider =
  name :: string
  apiKey :: string
  baseURL :: string
  model :: string
  systemPrompt :: string
  maxTokens :: int

text \<open>The values stored in the request body \<open>map[string]interface{}\<close> before it is serialized.\<close>

datatype body_val = VStr string | VInt int | VBool bool | VMsgs "ChatMessage list"

text \<open>
  An outbound request: \<open>Header\<close> holds the \<open>req.Header.Set\<close> calls under the names the
  source writes, \<open>payload\<close> the serialized body.
\<close>

record request =
  Method :: string
  URL :: string
  Header :: "string \<rightharpoonup> string"
  payload :: string

record response =
  StatusCode :: int
  Body :: body

text \<open>
  What the libraries and the network answer: \<open>marshal\<close> is \<open>json.Marshal\<close> of the request
  body, \<open>new_request_err\<close> the error of \<open>http.NewRequestWithContext\<close> for a method and a
  URL (\<open>None\<close> is nil), \<open>client_do\<close> is \<open>p.client.Do\<close>, and the last two are
  \<open>json.Unmarshal\<close> into the two decoders' targets.
\<close>

record world =
  marshal :: "(string \<rightharpoonup> body_val) \<Rightarrow> err + string"
  new_request_err :: "string \<Rightarrow> string \<Rightarrow> err option"
  client_do :: "request \<Rightarrow> err + response"
  unmarshal_event :: "string \<Rightarrow> err + (string \<times> json) list"
  unmarshal_response :: "string \<Rightarrow> err + choice_struct list"

definition Header_Set :: "request \<Rightarrow> string \<Rightarrow> string \<Rightarrow> request" where
  "Header_Set req k v = req\<lparr>Header := (Header req)(k \<mapsto> v)\<rparr>"

text \<open>Lines 28 to 36 of claude.go: the request body of the event-typed provider.\<close>

definition claude_reqBody :: "provider \<Rightarrow> ChatMessage list \<Rightarrow> (string \<rightharpoonup> body_val)" where
  "claude_reqBody p messages =
     (let reqBody = [''model'' \<mapsto> VStr (model p), ''max_tokens'' \<mapsto> VInt (maxTokens p),
                     ''stream'' \<mapsto> VBool True, ''messages'' \<mapsto> VMsgs messages]
      in if systemPrompt p \<noteq> [] then reqBody(''system'' \<mapsto> VStr (systemPrompt p)) else reqBody)"

text \<open>Lines 44 to 52: the request, once \<open>http.NewRequestWithContext\<close> has accepted it.\<close>

definition claude_request :: "provider \<Rightarrow> string \<Rightarrow> request" where
  "claude_request p bodyBytes =
     Header_Set
       (Header_Set
          (Header_Set
             \<lparr>Method = ''POST'', URL = baseURL p @ ''/v1/messages'', Header = Map.empty,
              payload = bodyBytes\<rparr>
             ''x-api-key'' (apiKey p))
          ''anthropic-version'' ''2023-06-01'')
       ''content-type'' ''application/json''"

definition claude_Stream :: "world \<Rightarrow> ctx \<Rightarrow> provider \<Rightarrow> ChatMessage list \<Rightarrow> err + pipeline" where
  "claude_Stream w c p messages =
     (case marshal w (claude_reqBody p messages) of
        Inl e \<Rightarrow> Inl (Errorf ''failed to marshal request: %w'' [AErr e])
      | Inr bodyBytes \<Rightarrow>
          (case new_request_err w ''POST'' (baseURL p @ ''/v1/messages'') of
             Some e \<Rightarrow> Inl (Errorf ''failed to create request: %w'' [AErr e])
           | None \<Rightarrow>
               (case client_do w (claude_request p bodyBytes) of
                  Inl e \<Rightarrow> Inl (Errorf ''failed to send request: %w'' [AErr e])
                | Inr resp \<Rightarrow>
                    if StatusCode resp \<noteq> 200
                    then Inl (Errorf ''API error (status %d): %s''
                                [AInt (StatusCode resp), AStr (all_bytes (Body resp))])
                    else Inr (claude_goroutine c (unmarshal_event w) (Body resp)))))"

text \<open>Lines 28 to 46 of the delta-typed provider: the message list and the request body.\<close>

definition openai_reqMessages :: "provider \<Rightarrow> ChatMessage list \<Rightarrow> ChatMessage list" where
  "openai_reqMessages p messages =
     (let reqMessages = [];
          reqMessages = (if systemPrompt p \<noteq> []
                         then reqMessages @ [\<lparr>Role = ''system'', Text = systemPrompt p\<rparr>]
                         else reqMessages)
      in reqMessages @ messages)"

definition openai_reqBody :: "provider \<Rightarrow> ChatMessage list \<Rightarrow> (string \<rightharpoonup> body_val)" where
  "openai_reqBody p messages =
     [''model'' \<mapsto> VStr (model p), ''max_tokens'' \<mapsto> VInt (maxTokens p),
      ''stream'' \<mapsto> VBool True, ''messages'' \<mapsto> VMsgs (openai_reqMessages p messages)]"

definition openai_request :: "provider \<Rightarrow> string \<Rightarrow> request" where
  "openai_request p bodyBytes =
     Header_Set
       (Header_Set
          \<lparr>Method = ''POST'', URL = baseURL p @ ''/chat/completions'', Header = Map.empty,
           payload = bodyBytes\<rparr>
          ''Authorization'' (''Bearer '' @ apiKey p))
       ''Content-Type'' ''application/json''"

text \<open>
  The delta-typed provider returns the channel of \<open>ParseSSE\<close> itself: the caller reads
  what the extractor sends.
\<close>

definition openai_Stream :: "world \<Rightarrow> ctx \<Rightarrow> provider \<Rightarrow> ChatMessage list \<Rightarrow> err + event list" where
  "openai_Stream w c p messages =
     (case marshal w (openai_reqBody p messages) of
        Inl e \<Rightarrow> Inl (Errorf ''failed to marshal request: %w'' [AErr e])
      | Inr bodyBytes \<Rightarrow>
          (case new_request_err w ''POST'' (baseURL p @ ''/chat/completions'') of
             Some e \<Rightarrow> Inl (Errorf ''failed to create request: %w'' [AErr e])
           | None \<Rightarrow>
               (case client_do w (openai_request p bodyBytes) of
                  Inl e \<Rightarrow> Inl (Errorf ''failed to send request: %w'' [AErr e])
                | Inr resp \<Rightarrow>
                    if StatusCode resp \<noteq> 200
                    then Inl (Errorf ''API error %d: %s''
                                [AInt (StatusCode resp), AStr (all_bytes (Body resp))])
                    else Inr (ParseSSE c (Body resp) (parseChunk (unmarshal_response w))))))"

section \<open>Reading a run\<close>

text \<open>The payloads the decoding callback was called with, in order.\<close>

fun calls :: "event list \<Rightarrow> string list" where
  "calls [] = []"
| "calls (Call d # es) = d # calls es"
| "calls (e # es) = calls es"

text \<open>The payload events of a line sequence: the \<open>data: \<close> lines, prefix stripped, in order.\<close>

definition payloads :: "string list \<Rightarrow> string list" where
  "payloads ls = map (\<lambda>l. TrimPrefix l ''data: '') (filter (\<lambda>l. HasPrefix l ''data: '') ls)"

text \<open>A chunk with the done marker or an error ends a stream.\<close>

definition terminal :: "StreamChunk \<Rightarrow> bool" where
  "terminal ch = (Done ch \<or> Error ch \<noteq> None)"

text \<open>No chunk follows a terminal one.\<close>

fun terminal_last :: "StreamChunk list \<Rightarrow> bool" where
  "terminal_last [] = True"
| "terminal_last (ch # cs) = (if terminal ch then cs = [] else terminal_last cs)"

text \<open>The channel is closed once, and that is the last thing that happens on it.\<close>

definition closed_once :: "event list \<Rightarrow> bool" where
  "closed_once tr = (tr \<noteq> [] \<and> last tr = ChanClose \<and> count_list (butlast tr) ChanClose = 0)"


text \<open>A decoder whose terminal chunks all come with the stop decision.\<close>

definition stops_on_terminal :: "(string \<Rightarrow> StreamChunk \<times> bool) \<Rightarrow> bool" where
  "stops_on_terminal onData = (\<forall>d. terminal (fst (onData d)) \<longrightarrow> snd (onData d))"

text \<open>The payloads up to and including the first one at which the decoder says stop.\<close>

fun upto_stop :: "(string \<Rightarrow> StreamChunk \<times> bool) \<Rightarrow> string list \<Rightarrow> string list" where
  "upto_stop onData [] = []"
| "upto_stop onData (d # ds) = (if snd (onData d) then [d] else d # upto_stop onData ds)"

text \<open>A context that is not cancelled at any point where the run looks at it.\<close>

definition never_cancelled :: "ctx \<Rightarrow> bool" where
  "never_cancelled c = (\<forall>i. \<not> check c i \<and> \<not> ctx_done (at_send c i))"

section \<open>Concrete contexts, payloads and servers\<close>

text \<open>\<open>context.Background()\<close>: never cancelled, every send goes through.\<close>

definition background :: ctx where
  "background =
     \<lparr>check = (\<lambda>i. False), at_send = (\<lambda>i. \<lparr>ctx_done = False, send_picked = True\<rparr>),
      at_err = \<lparr>ctx_done = False, send_picked = True\<rparr>,
      at_forward = (\<lambda>j. \<lparr>ctx_done = False, send_picked = True\<rparr>)\<rparr>"

text \<open>
  A context cancelled before the run looks at it for the first time, with a reader that
  leaves room in the channel: at every select both cases can proceed, and the runtime picks
  the send.
\<close>

definition cancelled_racing :: ctx where
  "cancelled_racing =
     \<lparr>check = (\<lambda>i. True), at_send = (\<lambda>i. \<lparr>ctx_done = True, send_picked = True\<rparr>),
      at_err = \<lparr>ctx_done = True, send_picked = True\<rparr>,
      at_forward = (\<lambda>j. \<lparr>ctx_done = True, send_picked = True\<rparr>)\<rparr>"

text \<open>What \<open>json.Unmarshal\<close> into a \<open>map[string]interface{}\<close> gives on a few payloads.\<close>

definition demo_unmarshal_event :: "string \<Rightarrow> err + (string \<times> json) list" where
  \<open>demo_unmarshal_event data =
     (if data = ''{"type":"content_block_delta","delta":{"text":"Hello"}}''
      then Inr [(''type'', JStr ''content_block_delta''), (''delta'', JObj [(''text'', JStr ''Hello'')])]
      else if data = ''{"type":"content_block_delta","delta":{"partial_json":"{"}}''
      then Inr [(''type'', JStr ''content_block_delta''), (''delta'', JObj [(''partial_json'', JStr ''{'')])]
      else if data = ''{"type":"content_block_delta"}''
      then Inr [(''type'', JStr ''content_block_delta'')]
      else if data = ''{"type":"message_stop"}''
      then Inr [(''type'', JStr ''message_stop'')]
      else if data = ''{"type":"error","error":{"message":"Overloaded"}}''
      then Inr [(''type'', JStr ''error''), (''error'', JObj [(''message'', JStr ''Overloaded'')])]
      else if data = ''{"type":"error"}''
      then Inr [(''type'', JStr ''error'')]
      else if data = ''{"type":"ping"}''
      then Inr [(''type'', JStr ''ping'')]
      else if data = ''{"type":7}''
      then Inr [(''type'', JNum 7)]
      else if data = ''{}''
      then Inr []
      else Inl (Lib ''invalid character''))\<close>

text \<open>What \<open>json.Unmarshal\<close> into the struct of \<open>parseChunk\<close> gives on a few payloads.\<close>

definition demo_unmarshal_response :: "string \<Rightarrow> err + choice_struct list" where
  \<open>demo_unmarshal_response data =
     (if data = ''{"choices":[{"delta":{"content":"Hello"}}]}''
      then Inr [\<lparr>Delta_Content = ''Hello'', FinishReason = None\<rparr>]
      else if data = ''{"choices":[{"delta":{"role":"assistant"}}]}''
      then Inr [\<lparr>Delta_Content = [], FinishReason = None\<rparr>]
      else if data = ''{"choices":[{"delta":{"content":"!"},"finish_reason":"stop"}]}''
      then Inr [\<lparr>Delta_Content = ''!'', FinishReason = Some ''stop''\<rparr>]
      else if data = ''{"choices":[]}''
      then Inr []
      else Inl (Lib ''invalid character''))\<close>

text \<open>A server that answers every request with the given status and body.\<close>

definition demo_world :: "int \<Rightarrow> body \<Rightarrow> world" where
  "demo_world status b =
     \<lparr>marshal = (\<lambda>m. Inr ''{...}''), new_request_err = (\<lambda>m u. None),
      client_do = (\<lambda>req. Inr \<lparr>StatusCode = status, Body = b\<rparr>),
      unmarshal_event = demo_unmarshal_event,
      unmarshal_response = demo_unmarshal_response\<rparr>"

text \<open>A network on which every send fails.\<close>

definition offline_world :: world where
  "offline_world =
     \<lparr>marshal = (\<lambda>m. Inr ''{...}''), new_request_err = (\<lambda>m u. None),
      client_do = (\<lambda>req. Inl (Lib ''connection refused'')),
      unmarshal_event = demo_unmarshal_event,
      unmarshal_response = demo_unmarshal_response\<rparr>"

definition demo_provider :: provider where
  "demo_provider =
     \<lparr>name = ''demo'', apiKey = ''test-key'', baseURL = ''https://api.example.com'',
      model = ''m-1'', systemPrompt = ''Be brief.'', maxTokens = 1024\<rparr>"

definition demo_messages :: "ChatMessage list" where
  "demo_messages = [\<lparr>Role = ''user'', Text = ''Hi''\<rparr>, \<lparr>Role = ''assistant'', Text = ''Hello''\<rparr>]"

section \<open>Properties of the extractor loop\<close>

lemma HasPrefix_split: "HasPrefix s p \<Longrightarrow> s = p @ TrimPrefix s p"
  unfolding HasPrefix_def TrimPrefix_def
  by (metis append_take_drop_id)

lemma data_line: "HasPrefix l ''data: '' \<Longrightarrow> l \<noteq> [] \<and> \<not> HasPrefix l '':'' \<and> l = ''data: '' @ TrimPrefix l ''data: ''"
proof -
  assume h: "HasPrefix l ''data: ''"
  then have e: "l = ''data: '' @ TrimPrefix l ''data: ''" by (rule HasPrefix_split)
  have "l \<noteq> []" using e by auto
  moreover have "\<not> HasPrefix l '':''"
    using h by (cases l) (simp_all add: HasPrefix_def)
  ultimately show ?thesis using e by blast
qed

lemma scan_loop_skip:
  "\<not> HasPrefix l ''data: '' \<Longrightarrow>
   scan_loop c f i (l # rest) = (if check c i then ([], True) else scan_loop c f (Suc i) rest)"
  by simp

lemma scan_loop_data:
  "HasPrefix l ''data: '' \<Longrightarrow>
   scan_loop c f i (l # rest) =
     (if check c i then ([], True)
      else if select_send (at_send c i) = DoneCase then ([Call (TrimPrefix l ''data: '')], True)
      else if snd (f (TrimPrefix l ''data: ''))
      then ([Call (TrimPrefix l ''data: ''), Send (fst (f (TrimPrefix l ''data: '')))], True)
      else (Call (TrimPrefix l ''data: '') # Send (fst (f (TrimPrefix l ''data: ''))) # fst (scan_loop c f (Suc i) rest),
            snd (scan_loop c f (Suc i) rest)))"
  using data_line [of l]
  by (cases "scan_loop c f (Suc i) rest") (simp split: choice.split)

lemma scan_loop_no_close:
  "count_list (fst (scan_loop c f i ls)) BodyClose = 0 \<and> count_list (fst (scan_loop c f i ls)) ChanClose = 0"
proof (induction ls arbitrary: i)
  case Nil
  show ?case by simp
next
  case (Cons l rest)
  show ?case
  proof (cases "HasPrefix l ''data: ''")
    case True
    then show ?thesis using Cons [of "Suc i"] by (simp add: scan_loop_data del: scan_loop.simps)
  next
    case False
    then show ?thesis using Cons [of "Suc i"] by (simp add: scan_loop_skip del: scan_loop.simps)
  qed
qed


lemma ParseSSE_closes_once:
  "count_list (ParseSSE c b f) BodyClose = 1 \<and> closed_once (ParseSSE c b f)"
  using scan_loop_no_close [of c f 0 "lines b"]
  by (cases "scan_loop c f 0 (lines b)")
     (simp add: ParseSSE_def closed_once_def err_tail_def butlast_append
          split: option.split choice.split)

lemma forward_no_close:
  "count_list (forward c j cs) BodyClose = 0 \<and> count_list (forward c j cs) ChanClose = 0"
  by (induction cs arbitrary: j) (simp_all split: choice.split)

lemma claude_goroutine_closes_twice: "body_closes (claude_goroutine c u b) = 2"
  using forward_no_close [of c 0 "sent (ParseSSE c b (claude_onData u))"]
        ParseSSE_closes_once [of c b "claude_onData u"]
  by (simp add: body_closes_def claude_goroutine_def Let_def)

lemma claude_goroutine_closed_once: "closed_once (out (claude_goroutine c u b))"
  using forward_no_close [of c 0 "sent (ParseSSE c b (claude_onData u))"]
  by (simp add: claude_goroutine_def Let_def closed_once_def butlast_append)

lemma sent_append: "sent (xs @ ys) = sent xs @ sent ys"
  by (induction xs rule: sent.induct) simp_all

lemma calls_append: "calls (xs @ ys) = calls xs @ calls ys"
  by (induction xs rule: calls.induct) simp_all

lemma scan_loop_terminal_last:
  "stops_on_terminal f \<Longrightarrow> terminal_last cs \<Longrightarrow> (snd (scan_loop c f i ls) \<longrightarrow> cs = []) \<Longrightarrow>
   terminal_last (sent (fst (scan_loop c f i ls)) @ cs)"
proof (induction ls arbitrary: i)
  case Nil
  then show ?case by simp
next
  case (Cons l rest)
  show ?case
  proof (cases "HasPrefix l ''data: ''")
    case True
    have nt: "\<not> snd (f (TrimPrefix l ''data: '')) \<Longrightarrow> \<not> terminal (fst (f (TrimPrefix l ''data: '')))"
      using Cons.prems(1) by (auto simp: stops_on_terminal_def)
    show ?thesis
      using True Cons.prems Cons.IH [of "Suc i"] nt
      by (simp add: scan_loop_data del: scan_loop.simps split: if_splits)
  next
    case False
    then show ?thesis
      using Cons.prems Cons.IH [of "Suc i"]
      by (simp add: scan_loop_skip del: scan_loop.simps split: if_splits)
  qed
qed

lemma claude_onData_stops: "stops_on_terminal (claude_onData u)"
  by (auto simp: stops_on_terminal_def claude_onData_def terminal_def Let_def
           split: sum.splits option.splits)

lemma parseChunk_stops: "stops_on_terminal (parseChunk u)"
  by (auto simp: stops_on_terminal_def parseChunk_def terminal_def
           split: sum.splits list.splits)

lemma ParseSSE_terminal_last:
  "stops_on_terminal f \<Longrightarrow> terminal_last (sent (ParseSSE c b f))"
  using scan_loop_terminal_last [of f "sent (if snd (scan_loop c f 0 (lines b)) then [] else err_tail c (read_err b))" c 0 "lines b"]
  by (cases "scan_loop c f 0 (lines b)")
     (simp add: ParseSSE_def sent_append err_tail_def terminal_def split: option.split choice.split)

lemma forward_terminal_last:
  "terminal_last cs \<Longrightarrow> terminal_last (sent (forward c j cs))"
  by (induction cs arbitrary: j) (auto simp: terminal_def split: choice.split if_splits)


lemma scan_loop_calls_prefix:
  "prefix (calls (fst (scan_loop c f i ls))) (payloads ls)"
proof (induction ls arbitrary: i)
  case Nil
  show ?case by simp
next
  case (Cons l rest)
  show ?case
  proof (cases "HasPrefix l ''data: ''")
    case True
    then show ?thesis using Cons [of "Suc i"]
      by (simp add: scan_loop_data payloads_def del: scan_loop.simps)
  next
    case False
    then show ?thesis using Cons [of "Suc i"]
      by (simp add: scan_loop_skip payloads_def del: scan_loop.simps)
  qed
qed

lemma scan_loop_sent_prefix:
  "prefix (sent (fst (scan_loop c f i ls))) (map (\<lambda>d. fst (f d)) (payloads ls))"
proof (induction ls arbitrary: i)
  case Nil
  show ?case by simp
next
  case (Cons l rest)
  show ?case
  proof (cases "HasPrefix l ''data: ''")
    case True
    then show ?thesis using Cons [of "Suc i"]
      by (simp add: scan_loop_data payloads_def del: scan_loop.simps)
  next
    case False
    then show ?thesis using Cons [of "Suc i"]
      by (simp add: scan_loop_skip payloads_def del: scan_loop.simps)
  qed
qed

lemma scan_loop_upto_stop:
  "never_cancelled c \<Longrightarrow>
   scan_loop c f i ls =
     (concat (map (\<lambda>d. [Call d, Send (fst (f d))]) (upto_stop f (payloads ls))),
      list_ex (\<lambda>d. snd (f d)) (payloads ls))"
proof (induction ls arbitrary: i)
  case Nil
  show ?case by (simp add: payloads_def)
next
  case (Cons l rest)
  have nc: "\<not> check c i" "select_send (at_send c i) = SendCase"
    using Cons.prems by (simp_all add: never_cancelled_def select_send_def)
  show ?case
  proof (cases "HasPrefix l ''data: ''")
    case True
    then show ?thesis using nc Cons.IH [of "Suc i"] Cons.prems
      by (simp add: scan_loop_data payloads_def del: scan_loop.simps)
  next
    case False
    then show ?thesis using nc Cons.IH [of "Suc i"] Cons.prems
      by (simp add: scan_loop_skip payloads_def del: scan_loop.simps)
  qed
qed

section \<open>The claims\<close>

text \<open>
  C1: on every way out of the pipeline the body's \<open>Close\<close> is to run exactly once. The
  extractor does so (\<open>ParseSSE_closes_once\<close>), and the delta-typed provider adds nothing
  to it. The goroutine of the event-typed provider defers a second \<open>resp.Body.Close()\<close> of
  its own on the body it has handed to \<open>ParseSSE\<close>: for a stream that ends with
  \<open>message_stop\<close>, \<open>Close\<close> runs twice.
\<close>

theorem event_typed_stream_closes_body_twice:
  \<open>claude_goroutine background demo_unmarshal_event
      \<lparr>lines = [''data: {"type":"message_stop"}''], read_err = None, all_bytes = []\<rparr>
    = \<lparr>sse = [Call ''{"type":"message_stop"}'', Send \<lparr>Content = [], Done = True, Error = None\<rparr>,
               BodyClose, ChanClose],
        out = [Send \<lparr>Content = [], Done = True, Error = None\<rparr>, BodyClose, ChanClose]\<rparr>
   \<and> body_closes (claude_goroutine background demo_unmarshal_event
      \<lparr>lines = [''data: {"type":"message_stop"}''], read_err = None, all_bytes = []\<rparr>) = 2\<close>
  by (simp add: claude_goroutine_def ParseSSE_def body_closes_def background_def
        select_send_def HasPrefix_def TrimPrefix_def claude_onData_def demo_unmarshal_event_def
        err_tail_def)

text \<open>
  C2: for both providers, nothing is sent after a chunk with the done marker or an error,
  and each channel is closed once, as the last thing that happens on it. This holds for the
  channel of \<open>ParseSSE\<close> under either decoder, and for the channel the event-typed
  provider's goroutine forwards to.
\<close>

theorem terminal_chunk_ends_stream:
  "terminal_last (sent (ParseSSE c b (parseChunk u))) \<and> closed_once (ParseSSE c b (parseChunk u))
   \<and> terminal_last (sent (sse (claude_goroutine c v b))) \<and> closed_once (sse (claude_goroutine c v b))
   \<and> terminal_last (sent (out (claude_goroutine c v b))) \<and> closed_once (out (claude_goroutine c v b))"
proof -
  have s: "sse (claude_goroutine c v b) = ParseSSE c b (claude_onData v)"
    by (simp add: claude_goroutine_def Let_def)
  have o: "sent (out (claude_goroutine c v b)) = sent (forward c 0 (sent (ParseSSE c b (claude_onData v))))"
    by (simp add: claude_goroutine_def Let_def sent_append)
  have 1: "terminal_last (sent (ParseSSE c b (parseChunk u)))"
    by (rule ParseSSE_terminal_last [OF parseChunk_stops])
  have 2: "terminal_last (sent (ParseSSE c b (claude_onData v)))"
    by (rule ParseSSE_terminal_last [OF claude_onData_stops])
  have 3: "terminal_last (sent (out (claude_goroutine c v b)))"
    unfolding o by (rule forward_terminal_last [OF 2])
  show ?thesis
    using 1 2 3 s ParseSSE_closes_once [of c b "parseChunk u"]
      ParseSSE_closes_once [of c b "claude_onData v"] claude_goroutine_closed_once [of c v b]
    by simp
qed

text \<open>
  A delta-typed stream with a payload after the sentinel: the caller gets the content chunk
  and the done chunk, and nothing of the third line.
\<close>

theorem terminal_chunk_ends_stream_witness:
  \<open>sent (ParseSSE background
           \<lparr>lines = [''data: {"choices":[{"delta":{"content":"Hello"}}]}'', ''data: [DONE]'',
                     ''data: {"choices":[{"delta":{"content":"Hello"}}]}''],
            read_err = None, all_bytes = []\<rparr> (parseChunk demo_unmarshal_response))
     = [\<lparr>Content = ''Hello'', Done = False, Error = None\<rparr>, \<lparr>Content = [], Done = True, Error = None\<rparr>]
   \<and> terminal_last (sent (ParseSSE background
           \<lparr>lines = [''data: {"choices":[{"delta":{"content":"Hello"}}]}'', ''data: [DONE]'',
                     ''data: {"choices":[{"delta":{"content":"Hello"}}]}''],
            read_err = None, all_bytes = []\<rparr> (parseChunk demo_unmarshal_response)))\<close>
  using terminal_chunk_ends_stream [of background
           \<open>\<lparr>lines = [''data: {"choices":[{"delta":{"content":"Hello"}}]}'', ''data: [DONE]'',
                     ''data: {"choices":[{"delta":{"content":"Hello"}}]}''],
            read_err = None, all_bytes = []\<rparr>\<close> demo_unmarshal_response]
  by (simp add: ParseSSE_def background_def select_send_def HasPrefix_def TrimPrefix_def
        parseChunk_def demo_unmarshal_response_def err_tail_def)

text \<open>
  C3: the decision table of the event-typed decoder. A payload that \<open>json.Unmarshal\<close>
  rejects gives an error chunk and stop. Otherwise: no \<open>type\<close> string, or a
  \<open>content_block_delta\<close> without a \<open>delta\<close> object or without a \<open>text\<close> string in it,
  or any other event kind, gives the empty chunk and continue; a \<open>content_block_delta\<close>
  with a text gives that text and continue; \<open>message_stop\<close> gives the done chunk and stop;
  \<open>error\<close> gives an error chunk made from the \<open>message\<close> string of the nested
  \<open>error\<close> object, or from \<open>unknown error\<close> when either is absent, and stop.
\<close>

theorem event_typed_decoder_table:
  "(u d = Inl e \<longrightarrow>
      claude_onData u d =
        (\<lparr>Content = [], Done = False,
          Error = Some (Errorf ''failed to parse SSE data: %w'' [AErr e])\<rparr>, True))
   \<and> (u d = Inr ev \<longrightarrow>
        (as_string (map_of ev ''type'') = None \<longrightarrow>
           claude_onData u d = (\<lparr>Content = [], Done = False, Error = None\<rparr>, False))
      \<and> (as_string (map_of ev ''type'') = Some ''content_block_delta'' \<longrightarrow>
           (as_object (map_of ev ''delta'') = None \<longrightarrow>
              claude_onData u d = (\<lparr>Content = [], Done = False, Error = None\<rparr>, False))
         \<and> (\<forall>delta. as_object (map_of ev ''delta'') = Some delta \<longrightarrow>
                (as_string (map_of delta ''text'') = None \<longrightarrow>
                   claude_onData u d = (\<lparr>Content = [], Done = False, Error = None\<rparr>, False))
              \<and> (\<forall>text. as_string (map_of delta ''text'') = Some text \<longrightarrow>
                   claude_onData u d = (\<lparr>Content = text, Done = False, Error = None\<rparr>, False))))
      \<and> (as_string (map_of ev ''type'') = Some ''message_stop'' \<longrightarrow>
           claude_onData u d = (\<lparr>Content = [], Done = True, Error = None\<rparr>, True))
      \<and> (as_string (map_of ev ''type'') = Some ''error'' \<longrightarrow>
           (as_object (map_of ev ''error'') = None \<longrightarrow>
              claude_onData u d =
                (\<lparr>Content = [], Done = False,
                  Error = Some (Errorf ''API error: %s'' [AStr ''unknown error''])\<rparr>, True))
         \<and> (\<forall>errData. as_object (map_of ev ''error'') = Some errData \<longrightarrow>
                (as_string (map_of errData ''message'') = None \<longrightarrow>
                   claude_onData u d =
                     (\<lparr>Content = [], Done = False,
                       Error = Some (Errorf ''API error: %s'' [AStr ''unknown error''])\<rparr>, True))
              \<and> (\<forall>msg. as_string (map_of errData ''message'') = Some msg \<longrightarrow>
                   claude_onData u d =
                     (\<lparr>Content = [], Done = False,
                       Error = Some (Errorf ''API error: %s'' [AStr msg])\<rparr>, True))))
      \<and> (\<forall>t. as_string (map_of ev ''type'') = Some t \<and> t \<noteq> ''content_block_delta''
               \<and> t \<noteq> ''message_stop'' \<and> t \<noteq> ''error'' \<longrightarrow>
             claude_onData u d = (\<lparr>Content = [], Done = False, Error = None\<rparr>, False)))"
  by (simp add: claude_onData_def)

text \<open>The table on nine payloads, one for each row.\<close>

theorem event_typed_decoder_table_witness:
  \<open>claude_onData demo_unmarshal_event ''{"type":"content_block_delta","delta":{"text":"Hello"}}''
      = (\<lparr>Content = ''Hello'', Done = False, Error = None\<rparr>, False)
   \<and> claude_onData demo_unmarshal_event ''{"type":"message_stop"}''
      = (\<lparr>Content = [], Done = True, Error = None\<rparr>, True)
   \<and> claude_onData demo_unmarshal_event ''{"type":"error","error":{"message":"Overloaded"}}''
      = (\<lparr>Content = [], Done = False, Error = Some (Errorf ''API error: %s'' [AStr ''Overloaded''])\<rparr>, True)
   \<and> claude_onData demo_unmarshal_event ''{"type":"error"}''
      = (\<lparr>Content = [], Done = False, Error = Some (Errorf ''API error: %s'' [AStr ''unknown error''])\<rparr>, True)
   \<and> claude_onData demo_unmarshal_event ''{"type":"ping"}''
      = (\<lparr>Content = [], Done = False, Error = None\<rparr>, False)
   \<and> claude_onData demo_unmarshal_event ''{"type":7}''
      = (\<lparr>Content = [], Done = False, Error = None\<rparr>, False)
   \<and> claude_onData demo_unmarshal_event ''{"type":"content_block_delta"}''
      = (\<lparr>Content = [], Done = False, Error = None\<rparr>, False)
   \<and> claude_onData demo_unmarshal_event ''{"type":"content_block_delta","delta":{"partial_json":"{"}}''
      = (\<lparr>Content = [], Done = False, Error = None\<rparr>, False)
   \<and> claude_onData demo_unmarshal_event ''not json''
      = (\<lparr>Content = [], Done = False,
          Error = Some (Errorf ''failed to parse SSE data: %w'' [AErr (Lib ''invalid character'')])\<rparr>, True)\<close>
proof -
  note t = event_typed_decoder_table [where u = demo_unmarshal_event]
  have 1: \<open>demo_unmarshal_event ''{"type":"content_block_delta","delta":{"text":"Hello"}}''
      = Inr [(''type'', JStr ''content_block_delta''), (''delta'', JObj [(''text'', JStr ''Hello'')])]\<close>
    by (simp add: demo_unmarshal_event_def)
  have 2: \<open>demo_unmarshal_event ''{"type":"message_stop"}'' = Inr [(''type'', JStr ''message_stop'')]\<close>
    by (simp add: demo_unmarshal_event_def)
  have 3: \<open>demo_unmarshal_event ''{"type":"error","error":{"message":"Overloaded"}}''
      = Inr [(''type'', JStr ''error''), (''error'', JObj [(''message'', JStr ''Overloaded'')])]\<close>
    by (simp add: demo_unmarshal_event_def)
  have 4: \<open>demo_unmarshal_event ''{"type":"error"}'' = Inr [(''type'', JStr ''error'')]\<close>
    by (simp add: demo_unmarshal_event_def)
  have 5: \<open>demo_unmarshal_event ''{"type":"ping"}'' = Inr [(''type'', JStr ''ping'')]\<close>
    by (simp add: demo_unmarshal_event_def)
  have 6: \<open>demo_unmarshal_event ''{"type":7}'' = Inr [(''type'', JNum 7)]\<close>
    by (simp add: demo_unmarshal_event_def)
  have 7: \<open>demo_unmarshal_event ''{"type":"content_block_delta"}'' = Inr [(''type'', JStr ''content_block_delta'')]\<close>
    by (simp add: demo_unmarshal_event_def)
  have 8: \<open>demo_unmarshal_event ''{"type":"content_block_delta","delta":{"partial_json":"{"}}''
      = Inr [(''type'', JStr ''content_block_delta''), (''delta'', JObj [(''partial_json'', JStr ''{'')])]\<close>
    by (simp add: demo_unmarshal_event_def)
  have 9: \<open>demo_unmarshal_event ''not json'' = Inl (Lib ''invalid character'')\<close>
    by (simp add: demo_unmarshal_event_def)
  show ?thesis
    using t [of \<open>''{"type":"content_block_delta","delta":{"text":"Hello"}}''\<close> undefined
             "[(''type'', JStr ''content_block_delta''), (''delta'', JObj [(''text'', JStr ''Hello'')])]"]
          t [of \<open>''{"type":"message_stop"}''\<close> undefined "[(''type'', JStr ''message_stop'')]"]
          t [of \<open>''{"type":"error","error":{"message":"Overloaded"}}''\<close> undefined
             "[(''type'', JStr ''error''), (''error'', JObj [(''message'', JStr ''Overloaded'')])]"]
          t [of \<open>''{"type":"error"}''\<close> undefined "[(''type'', JStr ''error'')]"]
          t [of \<open>''{"type":"ping"}''\<close> undefined "[(''type'', JStr ''ping'')]"]
          t [of \<open>''{"type":7}''\<close> undefined "[(''type'', JNum 7)]"]
          t [of \<open>''{"type":"content_block_delta"}''\<close> undefined "[(''type'', JStr ''content_block_delta'')]"]
          t [of \<open>''{"type":"content_block_delta","delta":{"partial_json":"{"}}''\<close> undefined
             "[(''type'', JStr ''content_block_delta''), (''delta'', JObj [(''partial_json'', JStr ''{'')])]"]
          t [of "''not json''" "Lib ''invalid character''" undefined]
    by (simp add: 1 2 3 4 5 6 7 8 9)
qed

text \<open>
  C4: the decision table of the delta-typed decoder. The sentinel \<open>[DONE]\<close> gives the
  done chunk and stop, whatever the JSON library would say of it. Any other payload that
  \<open>json.Unmarshal\<close> rejects gives an error chunk and stop; one with no choice gives the
  empty chunk and continue; one with a first choice gives that choice's delta content (the
  field stays empty when the payload has none), not done, and continue, whatever its finish
  reason is.
\<close>

theorem delta_typed_decoder_table:
  "parseChunk u ''[DONE]'' = (\<lparr>Content = [], Done = True, Error = None\<rparr>, True)
   \<and> (d \<noteq> ''[DONE]'' \<longrightarrow>
        (\<forall>e. u d = Inl e \<longrightarrow>
           parseChunk u d =
             (\<lparr>Content = [], Done = False,
               Error = Some (Errorf ''failed to parse chunk: %w'' [AErr e])\<rparr>, True))
      \<and> (u d = Inr [] \<longrightarrow>
           parseChunk u d = (\<lparr>Content = [], Done = False, Error = None\<rparr>, False))
      \<and> (\<forall>first others. u d = Inr (first # others) \<longrightarrow>
           parseChunk u d = (\<lparr>Content = Delta_Content first, Done = False, Error = None\<rparr>, False)))"
  by (simp add: parseChunk_def)

text \<open>The table on six payloads; the fourth one carries the finish reason \<open>stop\<close>.\<close>

theorem delta_typed_decoder_table_witness:
  \<open>parseChunk demo_unmarshal_response ''[DONE]'' = (\<lparr>Content = [], Done = True, Error = None\<rparr>, True)
   \<and> parseChunk demo_unmarshal_response ''{"choices":[{"delta":{"content":"Hello"}}]}''
       = (\<lparr>Content = ''Hello'', Done = False, Error = None\<rparr>, False)
   \<and> parseChunk demo_unmarshal_response ''{"choices":[{"delta":{"role":"assistant"}}]}''
       = (\<lparr>Content = [], Done = False, Error = None\<rparr>, False)
   \<and> parseChunk demo_unmarshal_response ''{"choices":[{"delta":{"content":"!"},"finish_reason":"stop"}]}''
       = (\<lparr>Content = ''!'', Done = False, Error = None\<rparr>, False)
   \<and> parseChunk demo_unmarshal_response ''{"choices":[]}''
       = (\<lparr>Content = [], Done = False, Error = None\<rparr>, False)
   \<and> parseChunk demo_unmarshal_response ''not json''
       = (\<lparr>Content = [], Done = False,
           Error = Some (Errorf ''failed to parse chunk: %w'' [AErr (Lib ''invalid character'')])\<rparr>, True)\<close>
proof -
  note t = delta_typed_decoder_table [where u = demo_unmarshal_response]
  have 1: \<open>demo_unmarshal_response ''{"choices":[{"delta":{"content":"Hello"}}]}''
      = Inr [\<lparr>Delta_Content = ''Hello'', FinishReason = None\<rparr>]\<close>
    by (simp add: demo_unmarshal_response_def)
  have 2: \<open>demo_unmarshal_response ''{"choices":[{"delta":{"role":"assistant"}}]}''
      = Inr [\<lparr>Delta_Content = [], FinishReason = None\<rparr>]\<close>
    by (simp add: demo_unmarshal_response_def)
  have 3: \<open>demo_unmarshal_response ''{"choices":[{"delta":{"content":"!"},"finish_reason":"stop"}]}''
      = Inr [\<lparr>Delta_Content = ''!'', FinishReason = Some ''stop''\<rparr>]\<close>
    by (simp add: demo_unmarshal_response_def)
  have 4: \<open>demo_unmarshal_response ''{"choices":[]}'' = Inr []\<close>
    by (simp add: demo_unmarshal_response_def)
  have 5: \<open>demo_unmarshal_response ''not json'' = Inl (Lib ''invalid character'')\<close>
    by (simp add: demo_unmarshal_response_def)
  show ?thesis
    using t [of \<open>''{"choices":[{"delta":{"content":"Hello"}}]}''\<close>]
          t [of \<open>''{"choices":[{"delta":{"role":"assistant"}}]}''\<close>]
          t [of \<open>''{"choices":[{"delta":{"content":"!"},"finish_reason":"stop"}]}''\<close>]
          t [of \<open>''{"choices":[]}''\<close>]
          t [of "''not json''"]
    by (simp add: 1 2 3 4 5)
qed

text \<open>
  C5: what the frame extractor does with each line. A blank line, a line that begins with
  \<open>:\<close> and any other line without the prefix \<open>data: \<close> produce nothing: the loop goes on
  to the next line (or returns, if the context is cancelled at the check). A line with the
  prefix is that prefix followed by its payload; when the context is not cancelled at the
  check and the send goes through, it produces one call of the decoder on the payload and
  one send of the decoder's chunk, and the loop goes on unless the decoder says stop. Over a
  whole run the decoder's calls are, in order, an initial part of the payloads of the
  \<open>data: \<close> lines, and the chunks the loop sends an initial part of their chunks. When the
  context is never cancelled, the run is one call and one send for each payload, in the
  order of the lines, up to and including the first payload at which the decoder stops.
\<close>

theorem frame_extractor_lines:
  "((l = [] \<or> HasPrefix l '':'' \<or> \<not> HasPrefix l ''data: '') \<longrightarrow>
      scan_loop c f i (l # rest) = (if check c i then ([], True) else scan_loop c f (Suc i) rest))
   \<and> (HasPrefix l ''data: '' \<longrightarrow>
        l = ''data: '' @ TrimPrefix l ''data: ''
      \<and> (\<not> check c i \<and> select_send (at_send c i) = SendCase \<longrightarrow>
           scan_loop c f i (l # rest) =
             (if snd (f (TrimPrefix l ''data: ''))
              then ([Call (TrimPrefix l ''data: ''), Send (fst (f (TrimPrefix l ''data: '')))], True)
              else (Call (TrimPrefix l ''data: '') # Send (fst (f (TrimPrefix l ''data: '')))
                      # fst (scan_loop c f (Suc i) rest),
                    snd (scan_loop c f (Suc i) rest)))))
   \<and> prefix (calls (ParseSSE c b f)) (payloads (lines b))
   \<and> prefix (sent (fst (scan_loop c f 0 (lines b)))) (map (\<lambda>d. fst (f d)) (payloads (lines b)))
   \<and> (never_cancelled c \<longrightarrow>
        ParseSSE c b f =
          concat (map (\<lambda>d. [Call d, Send (fst (f d))]) (upto_stop f (payloads (lines b))))
          @ (if list_ex (\<lambda>d. snd (f d)) (payloads (lines b)) then [] else err_tail c (read_err b))
          @ [BodyClose, ChanClose])"
proof -
  have skip: "(l = [] \<or> HasPrefix l '':'' \<or> \<not> HasPrefix l ''data: '') \<longrightarrow>
      scan_loop c f i (l # rest) = (if check c i then ([], True) else scan_loop c f (Suc i) rest)"
    using data_line [of l] scan_loop_skip [of l c f i rest] by blast
  have data: "HasPrefix l ''data: '' \<longrightarrow>
        l = ''data: '' @ TrimPrefix l ''data: ''
      \<and> (\<not> check c i \<and> select_send (at_send c i) = SendCase \<longrightarrow>
           scan_loop c f i (l # rest) =
             (if snd (f (TrimPrefix l ''data: ''))
              then ([Call (TrimPrefix l ''data: ''), Send (fst (f (TrimPrefix l ''data: '')))], True)
              else (Call (TrimPrefix l ''data: '') # Send (fst (f (TrimPrefix l ''data: '')))
                      # fst (scan_loop c f (Suc i) rest),
                    snd (scan_loop c f (Suc i) rest))))"
  proof (intro impI conjI)
    assume h: "HasPrefix l ''data: ''"
    show "l = ''data: '' @ TrimPrefix l ''data: ''"
      using data_line [OF h] by blast
    assume "\<not> check c i \<and> select_send (at_send c i) = SendCase"
    then show "scan_loop c f i (l # rest) =
             (if snd (f (TrimPrefix l ''data: ''))
              then ([Call (TrimPrefix l ''data: ''), Send (fst (f (TrimPrefix l ''data: '')))], True)
              else (Call (TrimPrefix l ''data: '') # Send (fst (f (TrimPrefix l ''data: '')))
                      # fst (scan_loop c f (Suc i) rest),
                    snd (scan_loop c f (Suc i) rest)))"
      by (simp add: scan_loop_data [OF h] del: scan_loop.simps)
  qed
  have tail: "calls (err_tail c (read_err b)) = []"
    by (simp add: err_tail_def split: option.split choice.split)
  have cp: "prefix (calls (ParseSSE c b f)) (payloads (lines b))"
    using scan_loop_calls_prefix [of c f 0 "lines b"] tail
    by (cases "scan_loop c f 0 (lines b)") (simp add: ParseSSE_def calls_append)
  have run: "never_cancelled c \<longrightarrow>
        ParseSSE c b f =
          concat (map (\<lambda>d. [Call d, Send (fst (f d))]) (upto_stop f (payloads (lines b))))
          @ (if list_ex (\<lambda>d. snd (f d)) (payloads (lines b)) then [] else err_tail c (read_err b))
          @ [BodyClose, ChanClose]"
    using scan_loop_upto_stop [of c f 0 "lines b"] by (simp add: ParseSSE_def)
  show ?thesis
    using skip data cp scan_loop_sent_prefix [of c f 0 "lines b"] run by blast
qed

text \<open>
  A delta-typed stream with a comment, a blank line and an \<open>event:\<close> field between its two
  \<open>data: \<close> lines, and a line after the sentinel.
\<close>

theorem frame_extractor_lines_witness:
  \<open>ParseSSE background
      \<lparr>lines = ['': keep-alive'', ''data: {"choices":[{"delta":{"content":"Hello"}}]}'', [],
                ''event: message'', ''data: [DONE]'', ''data: {"choices":[]}''],
       read_err = None, all_bytes = []\<rparr> (parseChunk demo_unmarshal_response)
    = [Call ''{"choices":[{"delta":{"content":"Hello"}}]}'',
       Send \<lparr>Content = ''Hello'', Done = False, Error = None\<rparr>,
       Call ''[DONE]'', Send \<lparr>Content = [], Done = True, Error = None\<rparr>,
       BodyClose, ChanClose]\<close>
proof -
  have nc: "never_cancelled background"
    by (simp add: never_cancelled_def background_def)
  have p: \<open>payloads ['': keep-alive'', ''data: {"choices":[{"delta":{"content":"Hello"}}]}'', [],
                ''event: message'', ''data: [DONE]'', ''data: {"choices":[]}'']
     = [''{"choices":[{"delta":{"content":"Hello"}}]}'', ''[DONE]'', ''{"choices":[]}'']\<close>
    by (simp add: payloads_def HasPrefix_def TrimPrefix_def)
  show ?thesis
    using nc frame_extractor_lines [of undefined background "parseChunk demo_unmarshal_response" undefined
        undefined \<open>\<lparr>lines = ['': keep-alive'', ''data: {"choices":[{"delta":{"content":"Hello"}}]}'', [],
                ''event: message'', ''data: [DONE]'', ''data: {"choices":[]}''],
       read_err = None, all_bytes = []\<rparr>\<close>]
    by (simp add: p parseChunk_def demo_unmarshal_response_def)
qed




text \<open>
  C7 as stated fails in its converse: both providers compare the status with 200, so a
  response with another success status, here 204, is an immediate error as well.
\<close>

theorem status_204_is_an_error:
  "claude_Stream (demo_world 204 \<lparr>lines = [], read_err = None, all_bytes = ''no content''\<rparr>)
      background demo_provider demo_messages
    = Inl (Errorf ''API error (status %d): %s'' [AInt 204, AStr ''no content''])
   \<and> openai_Stream (demo_world 204 \<lparr>lines = [], read_err = None, all_bytes = ''no content''\<rparr>)
      background demo_provider demo_messages
    = Inl (Errorf ''API error %d: %s'' [AInt 204, AStr ''no content''])"
  by (simp add: claude_Stream_def openai_Stream_def demo_world_def)

text \<open>
  C7, amended: once the request has been sent and answered, a status other than 200 ends
  \<open>Stream\<close> at once with an error made of the status code and the body read whole, and no
  channel; the status 200, and no other, goes on to streaming. This holds for both
  providers.
\<close>

theorem status_other_than_200_is_an_error:
  "(marshal w (claude_reqBody p ms) = Inr bs
      \<and> new_request_err w ''POST'' (baseURL p @ ''/v1/messages'') = None
      \<and> client_do w (claude_request p bs) = Inr resp \<longrightarrow>
      claude_Stream w c p ms =
        (if StatusCode resp \<noteq> 200
         then Inl (Errorf ''API error (status %d): %s''
                     [AInt (StatusCode resp), AStr (all_bytes (Body resp))])
         else Inr (claude_goroutine c (unmarshal_event w) (Body resp))))
   \<and> (marshal w (openai_reqBody p ms) = Inr bs'
      \<and> new_request_err w ''POST'' (baseURL p @ ''/chat/completions'') = None
      \<and> client_do w (openai_request p bs') = Inr resp' \<longrightarrow>
      openai_Stream w c p ms =
        (if StatusCode resp' \<noteq> 200
         then Inl (Errorf ''API error %d: %s''
                     [AInt (StatusCode resp'), AStr (all_bytes (Body resp'))])
         else Inr (ParseSSE c (Body resp') (parseChunk (unmarshal_response w)))))"
  by (simp add: claude_Stream_def openai_Stream_def)

text \<open>
  A server that answers 401 with a body, and one that answers 200 with an empty stream,
  for each provider.
\<close>

theorem status_other_than_200_is_an_error_witness:
  "claude_Stream (demo_world 401 \<lparr>lines = [], read_err = None, all_bytes = ''unauthorized''\<rparr>)
      background demo_provider demo_messages
    = Inl (Errorf ''API error (status %d): %s'' [AInt 401, AStr ''unauthorized''])
   \<and> openai_Stream (demo_world 401 \<lparr>lines = [], read_err = None, all_bytes = ''unauthorized''\<rparr>)
      background demo_provider demo_messages
    = Inl (Errorf ''API error %d: %s'' [AInt 401, AStr ''unauthorized''])
   \<and> claude_Stream (demo_world 200 \<lparr>lines = [], read_err = None, all_bytes = []\<rparr>)
      background demo_provider demo_messages
    = Inr (claude_goroutine background demo_unmarshal_event \<lparr>lines = [], read_err = None, all_bytes = []\<rparr>)
   \<and> openai_Stream (demo_world 200 \<lparr>lines = [], read_err = None, all_bytes = []\<rparr>)
      background demo_provider demo_messages
    = Inr (ParseSSE background \<lparr>lines = [], read_err = None, all_bytes = []\<rparr>
             (parseChunk demo_unmarshal_response))"
  using status_other_than_200_is_an_error
          [of "demo_world 401 \<lparr>lines = [], read_err = None, all_bytes = ''unauthorized''\<rparr>"
              demo_provider demo_messages "''{...}''"
              "\<lparr>StatusCode = 401, Body = \<lparr>lines = [], read_err = None, all_bytes = ''unauthorized''\<rparr>\<rparr>"
              background "''{...}''"
              "\<lparr>StatusCode = 401, Body = \<lparr>lines = [], read_err = None, all_bytes = ''unauthorized''\<rparr>\<rparr>"]
        status_other_than_200_is_an_error
          [of "demo_world 200 \<lparr>lines = [], read_err = None, all_bytes = []\<rparr>"
              demo_provider demo_messages "''{...}''"
              "\<lparr>StatusCode = 200, Body = \<lparr>lines = [], read_err = None, all_bytes = []\<rparr>\<rparr>"
              background "''{...}''"
              "\<lparr>StatusCode = 200, Body = \<lparr>lines = [], read_err = None, all_bytes = []\<rparr>\<rparr>"]
  by (simp add: demo_world_def)

text \<open>
  The check of the scanner's error: with a read error, an end of the loop by exhaustion and
  a context that is not cancelled, the error chunk is the last send; when the select takes
  the cancellation, which needs a cancelled context, it is skipped; without a read error
  there is no trailing chunk.
\<close>

lemma read_error_chunk:
  "\<not> snd (scan_loop c f 0 (lines b)) \<Longrightarrow> read_err b = Some e \<Longrightarrow> \<not> ctx_done (at_err c) \<Longrightarrow>
   ParseSSE c b f =
     fst (scan_loop c f 0 (lines b))
     @ [Send \<lparr>Content = [], Done = False, Error = Some e\<rparr>, BodyClose, ChanClose]"
  by (cases "scan_loop c f 0 (lines b)") (simp add: ParseSSE_def err_tail_def select_send_def)

lemma read_error_skipped:
  "read_err b = Some e \<Longrightarrow> select_send (at_err c) = DoneCase \<Longrightarrow>
   ctx_done (at_err c) \<and> ParseSSE c b f = fst (scan_loop c f 0 (lines b)) @ [BodyClose, ChanClose]"
  by (cases "scan_loop c f 0 (lines b)")
     (simp add: ParseSSE_def err_tail_def select_send_def split: if_splits)

lemma no_read_error_no_chunk:
  "read_err b = None \<Longrightarrow> ParseSSE c b f = fst (scan_loop c f 0 (lines b)) @ [BodyClose, ChanClose]"
  by (cases "scan_loop c f 0 (lines b)") (simp add: ParseSSE_def err_tail_def)

text \<open>
  C8: a read error is to be published as one last error chunk unless the context is
  already cancelled, and then skipped (the source's comment says so as well). The select
  that publishes it has the send and the cancellation as two cases of equal rank: with the
  context cancelled and room in the channel both can proceed, and when the runtime picks
  the send the error chunk is published after the cancellation.
\<close>

theorem read_error_published_after_cancellation:
  "ctx_done (at_err cancelled_racing)
   \<and> ParseSSE cancelled_racing
        \<lparr>lines = [], read_err = Some (Lib ''context canceled''), all_bytes = []\<rparr>
        (parseChunk demo_unmarshal_response)
      = [Send \<lparr>Content = [], Done = False, Error = Some (Lib ''context canceled'')\<rparr>,
         BodyClose, ChanClose]"
  by (simp add: ParseSSE_def err_tail_def cancelled_racing_def select_send_def)

text \<open>
  C9: the outbound requests. The event-typed provider's body has \<open>model\<close>,
  \<open>max_tokens\<close>, \<open>stream\<close> (true) and \<open>messages\<close> (the caller's list), and
  \<open>system\<close> exactly when the system prompt is not empty, and nothing else; its request is a
  POST to the base URL followed by \<open>/v1/messages\<close> with the three headers. The delta-typed
  provider's message list is the caller's list, with one \<open>system\<close> message before it
  exactly when the system prompt is not empty; that list goes into the body that is
  serialized, and the request is a POST to the base URL followed by
  \<open>/chat/completions\<close> with the two headers. Each request carries the serialized body and
  is the one handed to the client: what the client answers for it is what \<open>Stream\<close>
  returns when the client fails.
\<close>

theorem outbound_requests:
  "claude_reqBody p ms ''model'' = Some (VStr (model p))
   \<and> claude_reqBody p ms ''max_tokens'' = Some (VInt (maxTokens p))
   \<and> claude_reqBody p ms ''stream'' = Some (VBool True)
   \<and> claude_reqBody p ms ''messages'' = Some (VMsgs ms)
   \<and> claude_reqBody p ms ''system'' = (if systemPrompt p = [] then None else Some (VStr (systemPrompt p)))
   \<and> dom (claude_reqBody p ms) \<subseteq> {''model'', ''max_tokens'', ''stream'', ''messages'', ''system''}
   \<and> Method (claude_request p bs) = ''POST''
   \<and> URL (claude_request p bs) = baseURL p @ ''/v1/messages''
   \<and> Header (claude_request p bs) ''x-api-key'' = Some (apiKey p)
   \<and> Header (claude_request p bs) ''anthropic-version'' = Some ''2023-06-01''
   \<and> Header (claude_request p bs) ''content-type'' = Some ''application/json''
   \<and> payload (claude_request p bs) = bs
   \<and> (marshal w (claude_reqBody p ms) = Inr bs
        \<and> new_request_err w ''POST'' (baseURL p @ ''/v1/messages'') = None
        \<and> client_do w (claude_request p bs) = Inl e \<longrightarrow>
        claude_Stream w c p ms = Inl (Errorf ''failed to send request: %w'' [AErr e]))
   \<and> openai_reqMessages p ms
        = (if systemPrompt p = [] then ms else \<lparr>Role = ''system'', Text = systemPrompt p\<rparr> # ms)
   \<and> openai_reqBody p ms ''model'' = Some (VStr (model p))
   \<and> openai_reqBody p ms ''max_tokens'' = Some (VInt (maxTokens p))
   \<and> openai_reqBody p ms ''stream'' = Some (VBool True)
   \<and> openai_reqBody p ms ''messages'' = Some (VMsgs (openai_reqMessages p ms))
   \<and> dom (openai_reqBody p ms) = {''model'', ''max_tokens'', ''stream'', ''messages''}
   \<and> Method (openai_request p bs) = ''POST''
   \<and> URL (openai_request p bs) = baseURL p @ ''/chat/completions''
   \<and> Header (openai_request p bs) ''Authorization'' = Some (''Bearer '' @ apiKey p)
   \<and> Header (openai_request p bs) ''Content-Type'' = Some ''application/json''
   \<and> payload (openai_request p bs) = bs
   \<and> (marshal w (openai_reqBody p ms) = Inr bs
        \<and> new_request_err w ''POST'' (baseURL p @ ''/chat/completions'') = None
        \<and> client_do w (openai_request p bs) = Inl e \<longrightarrow>
        openai_Stream w c p ms = Inl (Errorf ''failed to send request: %w'' [AErr e]))"
proof -
  have b1: "claude_reqBody p ms ''model'' = Some (VStr (model p))
   \<and> claude_reqBody p ms ''max_tokens'' = Some (VInt (maxTokens p))
   \<and> claude_reqBody p ms ''stream'' = Some (VBool True)
   \<and> claude_reqBody p ms ''messages'' = Some (VMsgs ms)
   \<and> claude_reqBody p ms ''system'' = (if systemPrompt p = [] then None else Some (VStr (systemPrompt p)))"
    by (simp add: claude_reqBody_def Let_def)
  have b2: "dom (claude_reqBody p ms) \<subseteq> {''model'', ''max_tokens'', ''stream'', ''messages'', ''system''}"
    by (auto simp: claude_reqBody_def Let_def split: if_splits)
  have r1: "Method (claude_request p bs) = ''POST''
   \<and> URL (claude_request p bs) = baseURL p @ ''/v1/messages''
   \<and> Header (claude_request p bs) ''x-api-key'' = Some (apiKey p)
   \<and> Header (claude_request p bs) ''anthropic-version'' = Some ''2023-06-01''
   \<and> Header (claude_request p bs) ''content-type'' = Some ''application/json''
   \<and> payload (claude_request p bs) = bs"
    by (simp add: claude_request_def Header_Set_def)
  have s1: "marshal w (claude_reqBody p ms) = Inr bs
        \<and> new_request_err w ''POST'' (baseURL p @ ''/v1/messages'') = None
        \<and> client_do w (claude_request p bs) = Inl e \<longrightarrow>
        claude_Stream w c p ms = Inl (Errorf ''failed to send request: %w'' [AErr e])"
    by (simp add: claude_Stream_def)
  have m2: "openai_reqMessages p ms
        = (if systemPrompt p = [] then ms else \<lparr>Role = ''system'', Text = systemPrompt p\<rparr> # ms)"
    by (simp add: openai_reqMessages_def)
  have b3: "openai_reqBody p ms ''model'' = Some (VStr (model p))
   \<and> openai_reqBody p ms ''max_tokens'' = Some (VInt (maxTokens p))
   \<and> openai_reqBody p ms ''stream'' = Some (VBool True)
   \<and> openai_reqBody p ms ''messages'' = Some (VMsgs (openai_reqMessages p ms))"
    by (simp add: openai_reqBody_def)
  have b4: "dom (openai_reqBody p ms) = {''model'', ''max_tokens'', ''stream'', ''messages''}"
    by (auto simp: openai_reqBody_def split: if_splits)
  have r2: "Method (openai_request p bs) = ''POST''
   \<and> URL (openai_request p bs) = baseURL p @ ''/chat/completions''
   \<and> Header (openai_request p bs) ''Authorization'' = Some (''Bearer '' @ apiKey p)
   \<and> Header (openai_request p bs) ''Content-Type'' = Some ''application/json''
   \<and> payload (openai_request p bs) = bs"
    by (simp add: openai_request_def Header_Set_def)
  have s2: "marshal w (openai_reqBody p ms) = Inr bs
        \<and> new_request_err w ''POST'' (baseURL p @ ''/chat/completions'') = None
        \<and> client_do w (openai_request p bs) = Inl e \<longrightarrow>
        openai_Stream w c p ms = Inl (Errorf ''failed to send request: %w'' [AErr e])"
    by (simp add: openai_Stream_def)
  show ?thesis
    using b1 b2 r1 s1 m2 b3 b4 r2 s2 by blast
qed

text \<open>
  The two providers with and without a system prompt, and on a network where the send
  fails.
\<close>

theorem outbound_requests_witness:
  "openai_reqMessages demo_provider demo_messages
     = \<lparr>Role = ''system'', Text = ''Be brief.''\<rparr> # demo_messages
   \<and> openai_reqMessages (demo_provider\<lparr>systemPrompt := []\<rparr>) demo_messages = demo_messages
   \<and> claude_reqBody demo_provider demo_messages ''system'' = Some (VStr ''Be brief.'')
   \<and> claude_reqBody (demo_provider\<lparr>systemPrompt := []\<rparr>) demo_messages ''system'' = None
   \<and> claude_reqBody demo_provider demo_messages ''messages'' = Some (VMsgs demo_messages)
   \<and> URL (claude_request demo_provider ''{...}'') = ''https://api.example.com/v1/messages''
   \<and> URL (openai_request demo_provider ''{...}'') = ''https://api.example.com/chat/completions''
   \<and> Header (claude_request demo_provider ''{...}'') ''x-api-key'' = Some ''test-key''
   \<and> Header (openai_request demo_provider ''{...}'') ''Authorization'' = Some ''Bearer test-key''
   \<and> claude_Stream offline_world background demo_provider demo_messages
       = Inl (Errorf ''failed to send request: %w'' [AErr (Lib ''connection refused'')])
   \<and> openai_Stream offline_world background demo_provider demo_messages
       = Inl (Errorf ''failed to send request: %w'' [AErr (Lib ''connection refused'')])"
  using outbound_requests [of demo_provider demo_messages "''{...}''" offline_world
          "Lib ''connection refused''" background]
        outbound_requests [of "demo_provider\<lparr>systemPrompt := []\<rparr>" demo_messages "''{...}''"
          offline_world "Lib ''connection refused''" background]
  by (simp add: demo_provider_def offline_world_def)

text \<open>
  C10 as stated fails at its second example: the line \<open>data:  x\<close>, with two spaces,
  does begin with \<open>data: \<close>, so the decoder is called, on the payload \<open> x\<close> with the
  second space in front, and its chunk is sent.
\<close>

theorem two_spaces_line_is_decoded:
  "HasPrefix ''data:  x'' ''data:''
   \<and> ParseSSE background \<lparr>lines = [''data:  x''], read_err = None, all_bytes = []\<rparr>
        (parseChunk demo_unmarshal_response)
      = [Call '' x'',
         Send \<lparr>Content = [], Done = False,
               Error = Some (Errorf ''failed to parse chunk: %w'' [AErr (Lib ''invalid character'')])\<rparr>,
         BodyClose, ChanClose]"
  by (simp add: ParseSSE_def background_def select_send_def HasPrefix_def TrimPrefix_def
        parseChunk_def demo_unmarshal_response_def)

text \<open>
  C10, amended: a line that begins with \<open>data:\<close> and does not go on with a space (as
  \<open>data:[DONE]\<close>, or \<open>data:\<close> alone) is ignored: no call of the decoder, no chunk, and
  the loop goes on to the next line. A line that begins with \<open>data:\<close> and two spaces is
  not ignored: unless the context is cancelled at the check, the decoder is called on the
  rest of the line after \<open>data: \<close>, which begins with the second space.
\<close>

theorem data_without_space_is_ignored:
  "(HasPrefix l ''data:'' \<and> \<not> HasPrefix l ''data: '' \<longrightarrow>
      scan_loop c f i (l # rest) = (if check c i then ([], True) else scan_loop c f (Suc i) rest))
   \<and> (HasPrefix l ''data:  '' \<and> \<not> check c i \<longrightarrow>
        HasPrefix (TrimPrefix l ''data: '') '' ''
      \<and> calls (fst (scan_loop c f i (l # rest))) \<noteq> []
      \<and> hd (calls (fst (scan_loop c f i (l # rest)))) = TrimPrefix l ''data: '')"
proof -
  have 1: "HasPrefix l ''data:'' \<and> \<not> HasPrefix l ''data: '' \<longrightarrow>
      scan_loop c f i (l # rest) = (if check c i then ([], True) else scan_loop c f (Suc i) rest)"
    using scan_loop_skip [of l c f i rest] by blast
  have 2: "HasPrefix l ''data:  '' \<and> \<not> check c i \<longrightarrow>
        HasPrefix (TrimPrefix l ''data: '') '' ''
      \<and> calls (fst (scan_loop c f i (l # rest))) \<noteq> []
      \<and> hd (calls (fst (scan_loop c f i (l # rest)))) = TrimPrefix l ''data: ''"
  proof (intro impI)
    assume a: "HasPrefix l ''data:  '' \<and> \<not> check c i"
    then obtain r where e: "l = ''data:  '' @ r"
      using HasPrefix_split by blast
    have h: "HasPrefix l ''data: ''"
      by (simp add: e HasPrefix_def)
    have t: "HasPrefix (TrimPrefix l ''data: '') '' ''"
      by (simp add: e HasPrefix_def TrimPrefix_def)
    show "HasPrefix (TrimPrefix l ''data: '') '' ''
      \<and> calls (fst (scan_loop c f i (l # rest))) \<noteq> []
      \<and> hd (calls (fst (scan_loop c f i (l # rest)))) = TrimPrefix l ''data: ''"
      using a t by (simp add: scan_loop_data [OF h] del: scan_loop.simps)
  qed
  show ?thesis using 1 2 by blast
qed

text \<open>
  The lines \<open>data:[DONE]\<close> and \<open>data:\<close> produce nothing; the line \<open>data:  x\<close>
  produces a call with the payload \<open> x\<close>.
\<close>

theorem data_without_space_is_ignored_witness:
  "scan_loop background (parseChunk demo_unmarshal_response) 0 [''data:[DONE]'', ''data:''] = ([], False)
   \<and> calls (fst (scan_loop background (parseChunk demo_unmarshal_response) 0 [''data:  x''])) \<noteq> []
   \<and> hd (calls (fst (scan_loop background (parseChunk demo_unmarshal_response) 0 [''data:  x''])))
       = '' x''"
  using data_without_space_is_ignored
          [of "''data:[DONE]''" background "parseChunk demo_unmarshal_response" 0 "[''data:'']"]
        data_without_space_is_ignored
          [of "''data:''" background "parseChunk demo_unmarshal_response" "Suc 0" "[]"]
        data_without_space_is_ignored
          [of "''data:  x''" background "parseChunk demo_unmarshal_response" 0 "[]"]
  by (simp add: HasPrefix_def TrimPrefix_def background_def del: scan_loop.simps(2))

end
